theory Spec2Isabelle
  imports Complex_Main "HOL-Library.Sublist"
begin

section \<open>Data model (types/university.ts)\<close>

text \<open>
  JavaScript numbers are modelled as exact reals: the not-a-number value and the
  infinities are no values of the model (the request schema rejects NaN, and the
  arithmetic below stays finite on finite inputs except for the one division, which is
  modelled with its special results). An optional field \<open>f?: T\<close> and a nullable
  field \<open>T | null\<close> are \<open>T option\<close>.
\<close>

datatype CampusType = Urban | Suburban | Rural

datatype ResearchOutput = Low | Medium | High | VeryHigh

text \<open>
  The fields of \<open>University\<close> that the service and the comparison route read. The
  other fields (state, currency, imageUrl, studentPopulation, ...) are display-only:
  the modelled code never reads them, and they are left out.
\<close>

record university =
  id' :: string
  name :: string
  country :: string
  city :: string
  tuitionFee :: real
  ranking :: "real option"
  establishedYear :: real
  acceptanceRate :: real
  programs :: "string list"
  researchOutput :: ResearchOutput
  scholarshipAvailable :: bool
  campusType :: CampusType
  employmentRate :: real
  description :: string

datatype SortBy =
  SortName | SortRanking | SortTuitionFee | SortEstablishedYear
  | SortAcceptanceRate | SortEmploymentRate

datatype SortOrder = Asc | Desc

record UniversityFilters =
  search :: "string option"
  countries :: "string list option"
  cities :: "string list option"
  minTuition :: "real option"
  maxTuition :: "real option"
  minRanking :: "real option"
  maxRanking :: "real option"
  minYear :: "real option"
  maxYear :: "real option"
  programs :: "string list option"
  minAcceptanceRate :: "real option"
  maxAcceptanceRate :: "real option"
  campusTypes :: "CampusType list option"
  scholarshipOnly :: "bool option"
  minEmploymentRate :: "real option"
  researchOutput :: "ResearchOutput list option"
  page :: real
  limit :: real
  sortBy :: "SortBy option"
  sortOrder :: SortOrder

text \<open>The result of a division of JavaScript numbers, with its special values.\<close>

datatype js_number = Finite real | PosInfinity | NegInfinity | NaN

record FilterOptions =
  countryOptions :: "string list"
  cityOptions :: "string list"
  programOptions :: "string list"

record Pagination =
  p_total :: nat
  p_page :: real
  p_limit :: real
  p_totalPages :: js_number

record PaginatedResponse =
  data :: "university list"
  pagination :: Pagination
  filters :: FilterOptions

record ComparisonMetrics =
  tuitionDifference :: real
  rankingDifference :: "real option"
  acceptanceRateDifference :: real
  employmentRateDifference :: real

record UniversityComparison =
  universities :: "university \<times> university"
  comparison :: ComparisonMetrics

text \<open>The two client-error responses of the comparison route, with their messages.\<close>

datatype error =
  InvalidArgument string  \<comment> \<open>status 400\<close>
  | NotFound string  \<comment> \<open>status 404\<close>

section \<open>The JavaScript library functions the code calls\<close>

text \<open>\<open>String.prototype.toLowerCase\<close>, on the ASCII letters.\<close>

definition toLowerChar :: "char \<Rightarrow> char" where
  "toLowerChar c =
     (case map_of (zip ''ABCDEFGHIJKLMNOPQRSTUVWXYZ'' ''abcdefghijklmnopqrstuvwxyz'') c of
        Some l \<Rightarrow> l
      | None \<Rightarrow> c)"

definition toLowerCase :: "string \<Rightarrow> string" where
  "toLowerCase s = map toLowerChar s"

text \<open>\<open>String.prototype.includes\<close>: the argument occurs as a contiguous substring.\<close>

primrec str_includes :: "string \<Rightarrow> string \<Rightarrow> bool" where
  "str_includes [] t = (t = [])"
| "str_includes (c # s) t = (prefix t (c # s) \<or> str_includes s t)"

text \<open>\<open>String.prototype.split\<close> with a one-character separator.\<close>

fun split :: "char \<Rightarrow> string \<Rightarrow> string list" where
  "split sep [] = [[]]"
| "split sep (c # s) =
     (if c = sep then [] # split sep s
      else (case split sep s of w # ws \<Rightarrow> (c # w) # ws | [] \<Rightarrow> [[c]]))"

text \<open>
  \<open>Array.prototype.slice(start, end)\<close>: both arguments are truncated towards zero,
  a negative one counts from the end, and both are clamped to the array.
\<close>

definition toIntegerOrInfinity :: "real \<Rightarrow> int" where
  "toIntegerOrInfinity x = (if x < 0 then \<lceil>x\<rceil> else \<lfloor>x\<rfloor>)"

definition relativeIndex :: "nat \<Rightarrow> real \<Rightarrow> nat" where
  "relativeIndex len x =
     (let r = toIntegerOrInfinity x
      in if r < 0 then nat (max (int len + r) 0) else nat (min r (int len)))"

definition slice :: "'a list \<Rightarrow> real \<Rightarrow> real \<Rightarrow> 'a list" where
  "slice xs start end' =
     (let k = relativeIndex (length xs) start;
          final = relativeIndex (length xs) end'
      in take (final - k) (drop k xs))"

text \<open>
  \<open>Array.prototype.sort(compareFn)\<close> is a stable sort: \<open>a\<close> is placed before
  \<open>b\<close> when \<open>compareFn a b < 0\<close>, after it when \<open>compareFn a b > 0\<close>, and
  elements that compare equal keep their input order. For a consistent comparator that
  determines the result, which is the one computed here by stable insertion.
\<close>

fun insert_sorted :: "('a \<Rightarrow> 'a \<Rightarrow> real) \<Rightarrow> 'a \<Rightarrow> 'a list \<Rightarrow> 'a list" where
  "insert_sorted compareFn a [] = [a]"
| "insert_sorted compareFn a (b # bs) =
     (if compareFn a b \<le> 0 then a # b # bs else b # insert_sorted compareFn a bs)"

definition js_sort :: "('a \<Rightarrow> 'a \<Rightarrow> real) \<Rightarrow> 'a list \<Rightarrow> 'a list" where
  "js_sort compareFn xs = foldr (insert_sorted compareFn) xs []"

text \<open>The quotient of two numbers and \<open>Math.ceil\<close> of it.\<close>

definition js_div :: "real \<Rightarrow> real \<Rightarrow> js_number" where
  "js_div x y =
     (if y \<noteq> 0 then Finite (x / y)
      else if x > 0 then PosInfinity else if x < 0 then NegInfinity else NaN)"

fun Math_ceil :: "js_number \<Rightarrow> js_number" where
  "Math_ceil (Finite x) = Finite (of_int \<lceil>x\<rceil>)"
| "Math_ceil v = v"

definition MAX_SAFE_INTEGER :: real where
  "MAX_SAFE_INTEGER = 9007199254740991"

section \<open>UniversityService (lib/university-service.ts)\<close>

text \<open>
  The catalog \<open>universities\<close> of \<open>lib/db\<close> is a parameter, \<open>catalog\<close>, of
  every function that reads it. A test \<open>if (filters.search)\<close> is JavaScript
  truthiness: an absent and an empty string both fail it, as do an absent and a false
  boolean; a bound is tested with \<open>!== undefined\<close>.
\<close>

definition filterUniversities :: "university list \<Rightarrow> UniversityFilters \<Rightarrow> university list" where
  "filterUniversities catalog fs =
     (let filtered = catalog;
          filtered =
            (if search fs \<noteq> None \<and> search fs \<noteq> Some []
             then (let searchLower = toLowerCase (the (search fs))
                   in filter (\<lambda>u.
                        str_includes (toLowerCase (name u)) searchLower \<or>
                        str_includes (toLowerCase (city u)) searchLower \<or>
                        str_includes (toLowerCase (country u)) searchLower \<or>
                        str_includes (toLowerCase (description u)) searchLower) filtered)
             else filtered);
          filtered =
            (if countries fs \<noteq> None \<and> length (the (countries fs)) > 0
             then filter (\<lambda>u. country u \<in> set (the (countries fs))) filtered
             else filtered);
          filtered =
            (if cities fs \<noteq> None \<and> length (the (cities fs)) > 0
             then filter (\<lambda>u. city u \<in> set (the (cities fs))) filtered
             else filtered);
          filtered =
            (if minTuition fs \<noteq> None
             then filter (\<lambda>u. tuitionFee u \<ge> the (minTuition fs)) filtered
             else filtered);
          filtered =
            (if maxTuition fs \<noteq> None
             then filter (\<lambda>u. tuitionFee u \<le> the (maxTuition fs)) filtered
             else filtered);
          filtered =
            (if minRanking fs \<noteq> None
             then filter (\<lambda>u. ranking u \<noteq> None \<and> the (ranking u) \<ge> the (minRanking fs)) filtered
             else filtered);
          filtered =
            (if maxRanking fs \<noteq> None
             then filter (\<lambda>u. ranking u \<noteq> None \<and> the (ranking u) \<le> the (maxRanking fs)) filtered
             else filtered);
          filtered =
            (if minYear fs \<noteq> None
             then filter (\<lambda>u. establishedYear u \<ge> the (minYear fs)) filtered
             else filtered);
          filtered =
            (if maxYear fs \<noteq> None
             then filter (\<lambda>u. establishedYear u \<le> the (maxYear fs)) filtered
             else filtered);
          filtered =
            (if UniversityFilters.programs fs \<noteq> None
                \<and> length (the (UniversityFilters.programs fs)) > 0
             then filter (\<lambda>u. list_ex (\<lambda>program. program \<in> set (university.programs u))
                                        (the (UniversityFilters.programs fs))) filtered
             else filtered);
          filtered =
            (if minAcceptanceRate fs \<noteq> None
             then filter (\<lambda>u. acceptanceRate u \<ge> the (minAcceptanceRate fs)) filtered
             else filtered);
          filtered =
            (if maxAcceptanceRate fs \<noteq> None
             then filter (\<lambda>u. acceptanceRate u \<le> the (maxAcceptanceRate fs)) filtered
             else filtered);
          filtered =
            (if campusTypes fs \<noteq> None \<and> length (the (campusTypes fs)) > 0
             then filter (\<lambda>u. campusType u \<in> set (the (campusTypes fs))) filtered
             else filtered);
          filtered =
            (if scholarshipOnly fs = Some True
             then filter (\<lambda>u. scholarshipAvailable u) filtered
             else filtered);
          filtered =
            (if minEmploymentRate fs \<noteq> None
             then filter (\<lambda>u. employmentRate u \<ge> the (minEmploymentRate fs)) filtered
             else filtered);
          filtered =
            (if UniversityFilters.researchOutput fs \<noteq> None
                \<and> length (the (UniversityFilters.researchOutput fs)) > 0
             then filter (\<lambda>u. university.researchOutput u
                                 \<in> set (the (UniversityFilters.researchOutput fs))) filtered
             else filtered)
      in filtered)"

text \<open>
  The comparator of \<open>sortUniversities\<close>: the switch that picks \<open>aValue\<close> and
  \<open>bValue\<close>, then the comparison by type. \<open>localeCompare\<close> is the runtime's
  collation and a parameter. The two values come from the same branch of the switch, so
  they have the same type; \<open>sortBy\<close> has passed the schema, so the default branch
  is not reached.
\<close>

datatype js_value = NumberValue real | StringValue string

fun sortValue :: "SortBy \<Rightarrow> university \<Rightarrow> js_value" where
  "sortValue SortName u = StringValue (toLowerCase (name u))"
| "sortValue SortRanking u =
     NumberValue (case ranking u of None \<Rightarrow> MAX_SAFE_INTEGER | Some r \<Rightarrow> r)"
| "sortValue SortTuitionFee u = NumberValue (tuitionFee u)"
| "sortValue SortEstablishedYear u = NumberValue (establishedYear u)"
| "sortValue SortAcceptanceRate u = NumberValue (acceptanceRate u)"
| "sortValue SortEmploymentRate u = NumberValue (employmentRate u)"

fun compareValues ::
  "(string \<Rightarrow> string \<Rightarrow> real) \<Rightarrow> SortOrder \<Rightarrow> js_value \<Rightarrow> js_value \<Rightarrow> real" where
  "compareValues localeCompare order (StringValue aValue) (StringValue bValue) =
     (if order = Asc then localeCompare aValue bValue else localeCompare bValue aValue)"
| "compareValues localeCompare order (NumberValue aValue) (NumberValue bValue) =
     (if order = Asc then aValue - bValue else bValue - aValue)"
| "compareValues localeCompare order _ _ = 0"

definition compareFn ::
  "(string \<Rightarrow> string \<Rightarrow> real) \<Rightarrow> SortBy \<Rightarrow> SortOrder \<Rightarrow> university \<Rightarrow> university \<Rightarrow> real" where
  "compareFn localeCompare field order a b =
     compareValues localeCompare order (sortValue field a) (sortValue field b)"

definition sortUniversities ::
  "(string \<Rightarrow> string \<Rightarrow> real) \<Rightarrow> university list \<Rightarrow> SortBy option \<Rightarrow> SortOrder
     \<Rightarrow> university list" where
  "sortUniversities localeCompare us sortBy' order =
     (case sortBy' of
        None \<Rightarrow> us
      | Some field \<Rightarrow> js_sort (compareFn localeCompare field order) us)"

definition paginateResults ::
  "university list \<Rightarrow> real \<Rightarrow> real \<Rightarrow> university list \<times> nat \<times> js_number" where
  "paginateResults us page' limit' =
     (let total = length us;
          totalPages = Math_ceil (js_div (real total) limit');
          start = (page' - 1) * limit';
          end' = start + limit';
          data' = slice us start end'
      in (data', total, totalPages))"

text \<open>
  Modelled from the spec: \<open>getFilterOptions\<close> of \<open>lib/db\<close>, the distinct
  countries, cities and programs of the whole catalog (section 4.4).
\<close>

definition getFilterOptions :: "university list \<Rightarrow> FilterOptions" where
  "getFilterOptions catalog =
     \<lparr>countryOptions = remdups (map country catalog),
      cityOptions = remdups (map city catalog),
      programOptions = remdups (concat (map university.programs catalog))\<rparr>"

definition getUniversities ::
  "(string \<Rightarrow> string \<Rightarrow> real) \<Rightarrow> university list \<Rightarrow> UniversityFilters \<Rightarrow> PaginatedResponse" where
  "getUniversities localeCompare catalog fs =
     (let filtered = filterUniversities catalog fs;
          filtered = sortUniversities localeCompare filtered (sortBy fs) (sortOrder fs);
          (data', total, totalPages) = paginateResults filtered (page fs) (limit fs);
          filterOptions = getFilterOptions catalog
      in \<lparr>data = data',
          pagination = \<lparr>p_total = total, p_page = page fs, p_limit = limit fs,
                        p_totalPages = totalPages\<rparr>,
          filters = filterOptions\<rparr>)"

definition getUniversitiesByIds :: "university list \<Rightarrow> string list \<Rightarrow> university list" where
  "getUniversitiesByIds catalog ids = filter (\<lambda>u. id' u \<in> set ids) catalog"

section \<open>The comparison route (app/api/universities/compare/route.ts)\<close>

text \<open>
  \<open>GET\<close> of the comparison route, from the value of the query parameter \<open>ids\<close>
  (\<open>None\<close> when the parameter is missing) to the response: the status 400 and 404
  responses are the errors. The test \<open>uni1.ranking && uni2.ranking\<close> is truthiness:
  a ranking of zero fails it like a missing one.
\<close>

definition truthy_number :: "real option \<Rightarrow> bool" where
  "truthy_number v = (case v of None \<Rightarrow> False | Some x \<Rightarrow> x \<noteq> 0)"

definition comparison_of :: "university \<Rightarrow> university \<Rightarrow> UniversityComparison" where
  "comparison_of uni1 uni2 =
     \<lparr>universities = (uni1, uni2),
      comparison =
        \<lparr>tuitionDifference = \<bar>tuitionFee uni1 - tuitionFee uni2\<bar>,
         rankingDifference =
           (if truthy_number (ranking uni1) \<and> truthy_number (ranking uni2)
            then Some \<bar>the (ranking uni1) - the (ranking uni2)\<bar>
            else None),
         acceptanceRateDifference = \<bar>acceptanceRate uni1 - acceptanceRate uni2\<bar>,
         employmentRateDifference = \<bar>employmentRate uni1 - employmentRate uni2\<bar>\<rparr>\<rparr>"

definition compare_GET :: "university list \<Rightarrow> string option \<Rightarrow> error + UniversityComparison" where
  "compare_GET catalog idsParam =
     (if idsParam = None \<or> idsParam = Some [] then Inl (InvalidArgument ''Missing ids parameter'')
      else
        (let ids = filter (\<lambda>s. s \<noteq> []) (split CHR '','' (the idsParam))
         in if length ids \<noteq> 2
            then Inl (InvalidArgument ''Exactly 2 university IDs are required for comparison'')
            else
              (let unis = getUniversitiesByIds catalog ids
               in if length unis \<noteq> 2
                  then Inl (NotFound ''One or both universities not found'')
                  else (case unis of
                          [uni1, uni2] \<Rightarrow> Inr (comparison_of uni1 uni2)
                        | _ \<Rightarrow> Inl (NotFound ''One or both universities not found'')))))"

text \<open>
  The identifiers a caller supplies: the non-empty parts of the \<open>ids\<close> parameter
  between commas, none when the parameter is missing.
\<close>

definition supplied_ids :: "string option \<Rightarrow> string list" where
  "supplied_ids idsParam =
     (case idsParam of None \<Rightarrow> [] | Some s \<Rightarrow> filter (\<lambda>x. x \<noteq> []) (split CHR '','' s))"

text \<open>
  The request schema \<open>UniversityFiltersSchema\<close> (types/university.ts): the bounds it
  puts on the numbers of a request. The enumerations are types here, and the year the
  schema reads from the clock is a parameter.
\<close>

definition optional :: "('a \<Rightarrow> bool) \<Rightarrow> 'a option \<Rightarrow> bool" where
  "optional check v = (case v of None \<Rightarrow> True | Some x \<Rightarrow> check x)"

definition UniversityFiltersSchema :: "real \<Rightarrow> UniversityFilters \<Rightarrow> bool" where
  "UniversityFiltersSchema currentYear fs =
     (optional (\<lambda>x. 0 \<le> x) (minTuition fs)
      \<and> optional (\<lambda>x. 0 \<le> x) (maxTuition fs)
      \<and> optional (\<lambda>x. 1 \<le> x) (minRanking fs)
      \<and> optional (\<lambda>x. 1 \<le> x) (maxRanking fs)
      \<and> optional (\<lambda>x. 1000 \<le> x \<and> x \<le> currentYear) (minYear fs)
      \<and> optional (\<lambda>x. 1000 \<le> x \<and> x \<le> currentYear) (maxYear fs)
      \<and> optional (\<lambda>x. 0 \<le> x \<and> x \<le> 100) (minAcceptanceRate fs)
      \<and> optional (\<lambda>x. 0 \<le> x \<and> x \<le> 100) (maxAcceptanceRate fs)
      \<and> optional (\<lambda>x. 0 \<le> x \<and> x \<le> 100) (minEmploymentRate fs)
      \<and> 1 \<le> page fs
      \<and> 1 \<le> limit fs \<and> limit fs \<le> 100)"

section \<open>The filter predicates in the specification's words\<close>

text \<open>
  The filter dimensions of section 4.1 of the specification, when each is active, and
  the predicate each puts on a record. These follow the specification, not the code, and
  are compared with \<open>filterUniversities\<close> below.
\<close>

datatype dimension =
  DSearch | DCountries | DCities | DMinTuition | DMaxTuition | DMinRanking | DMaxRanking
  | DMinYear | DMaxYear | DPrograms | DMinAcceptanceRate | DMaxAcceptanceRate
  | DCampusTypes | DScholarshipOnly | DMinEmploymentRate | DResearchOutput

definition dimensions :: "dimension list" where
  "dimensions =
     [DSearch, DCountries, DCities, DMinTuition, DMaxTuition, DMinRanking, DMaxRanking,
      DMinYear, DMaxYear, DPrograms, DMinAcceptanceRate, DMaxAcceptanceRate,
      DCampusTypes, DScholarshipOnly, DMinEmploymentRate, DResearchOutput]"

definition present_nonempty :: "'a list option \<Rightarrow> bool" where
  "present_nonempty v = (case v of None \<Rightarrow> False | Some xs \<Rightarrow> xs \<noteq> [])"

fun active :: "dimension \<Rightarrow> UniversityFilters \<Rightarrow> bool" where
  "active DSearch fs = present_nonempty (search fs)"
| "active DCountries fs = present_nonempty (countries fs)"
| "active DCities fs = present_nonempty (cities fs)"
| "active DMinTuition fs = (minTuition fs \<noteq> None)"
| "active DMaxTuition fs = (maxTuition fs \<noteq> None)"
| "active DMinRanking fs = (minRanking fs \<noteq> None)"
| "active DMaxRanking fs = (maxRanking fs \<noteq> None)"
| "active DMinYear fs = (minYear fs \<noteq> None)"
| "active DMaxYear fs = (maxYear fs \<noteq> None)"
| "active DPrograms fs = present_nonempty (UniversityFilters.programs fs)"
| "active DMinAcceptanceRate fs = (minAcceptanceRate fs \<noteq> None)"
| "active DMaxAcceptanceRate fs = (maxAcceptanceRate fs \<noteq> None)"
| "active DCampusTypes fs = present_nonempty (campusTypes fs)"
| "active DScholarshipOnly fs = (scholarshipOnly fs = Some True)"
| "active DMinEmploymentRate fs = (minEmploymentRate fs \<noteq> None)"
| "active DResearchOutput fs = present_nonempty (UniversityFilters.researchOutput fs)"

definition matches_text :: "string \<Rightarrow> string \<Rightarrow> bool" where
  "matches_text field term = str_includes (toLowerCase field) (toLowerCase term)"

definition member_of :: "'a \<Rightarrow> 'a list option \<Rightarrow> bool" where
  "member_of x v = (case v of None \<Rightarrow> False | Some xs \<Rightarrow> x \<in> set xs)"

definition at_least :: "real \<Rightarrow> real option \<Rightarrow> bool" where
  "at_least x bound = (case bound of None \<Rightarrow> False | Some b \<Rightarrow> b \<le> x)"

definition at_most :: "real \<Rightarrow> real option \<Rightarrow> bool" where
  "at_most x bound = (case bound of None \<Rightarrow> False | Some b \<Rightarrow> x \<le> b)"

fun satisfies :: "dimension \<Rightarrow> UniversityFilters \<Rightarrow> university \<Rightarrow> bool" where
  "satisfies DSearch fs u =
     (case search fs of
        None \<Rightarrow> False
      | Some term \<Rightarrow>
          matches_text (name u) term \<or> matches_text (city u) term \<or>
          matches_text (country u) term \<or> matches_text (description u) term)"
| "satisfies DCountries fs u = member_of (country u) (countries fs)"
| "satisfies DCities fs u = member_of (city u) (cities fs)"
| "satisfies DMinTuition fs u = at_least (tuitionFee u) (minTuition fs)"
| "satisfies DMaxTuition fs u = at_most (tuitionFee u) (maxTuition fs)"
| "satisfies DMinRanking fs u =
     (case ranking u of None \<Rightarrow> False | Some r \<Rightarrow> at_least r (minRanking fs))"
| "satisfies DMaxRanking fs u =
     (case ranking u of None \<Rightarrow> False | Some r \<Rightarrow> at_most r (maxRanking fs))"
| "satisfies DMinYear fs u = at_least (establishedYear u) (minYear fs)"
| "satisfies DMaxYear fs u = at_most (establishedYear u) (maxYear fs)"
| "satisfies DPrograms fs u =
     (case UniversityFilters.programs fs of
        None \<Rightarrow> False
      | Some ps \<Rightarrow> set ps \<inter> set (university.programs u) \<noteq> {})"
| "satisfies DMinAcceptanceRate fs u = at_least (acceptanceRate u) (minAcceptanceRate fs)"
| "satisfies DMaxAcceptanceRate fs u = at_most (acceptanceRate u) (maxAcceptanceRate fs)"
| "satisfies DCampusTypes fs u = member_of (campusType u) (campusTypes fs)"
| "satisfies DScholarshipOnly fs u = scholarshipAvailable u"
| "satisfies DMinEmploymentRate fs u = at_least (employmentRate u) (minEmploymentRate fs)"
| "satisfies DResearchOutput fs u =
     member_of (university.researchOutput u) (UniversityFilters.researchOutput fs)"

text \<open>A record matches a request when it satisfies every active dimension's predicate.\<close>

definition matches :: "UniversityFilters \<Rightarrow> university \<Rightarrow> bool" where
  "matches fs u = list_all (\<lambda>d. \<not> active d fs \<or> satisfies d fs u) dimensions"

text \<open>
  One request that applies the filters of two: each dimension is taken from the first
  request where the first request has it active, and from the second otherwise.
\<close>

definition combine :: "UniversityFilters \<Rightarrow> UniversityFilters \<Rightarrow> UniversityFilters" where
  "combine f g =
     f\<lparr>search := (if active DSearch f then search f else search g),
       countries := (if active DCountries f then countries f else countries g),
       cities := (if active DCities f then cities f else cities g),
       minTuition := (if active DMinTuition f then minTuition f else minTuition g),
       maxTuition := (if active DMaxTuition f then maxTuition f else maxTuition g),
       minRanking := (if active DMinRanking f then minRanking f else minRanking g),
       maxRanking := (if active DMaxRanking f then maxRanking f else maxRanking g),
       minYear := (if active DMinYear f then minYear f else minYear g),
       maxYear := (if active DMaxYear f then maxYear f else maxYear g),
       programs := (if active DPrograms f then UniversityFilters.programs f
                    else UniversityFilters.programs g),
       minAcceptanceRate :=
         (if active DMinAcceptanceRate f then minAcceptanceRate f else minAcceptanceRate g),
       maxAcceptanceRate :=
         (if active DMaxAcceptanceRate f then maxAcceptanceRate f else maxAcceptanceRate g),
       campusTypes := (if active DCampusTypes f then campusTypes f else campusTypes g),
       scholarshipOnly :=
         (if active DScholarshipOnly f then scholarshipOnly f else scholarshipOnly g),
       minEmploymentRate :=
         (if active DMinEmploymentRate f then minEmploymentRate f else minEmploymentRate g),
       researchOutput := (if active DResearchOutput f then UniversityFilters.researchOutput f
                          else UniversityFilters.researchOutput g)\<rparr>"

section \<open>Sample records and requests\<close>

definition uni_a :: university where
  "uni_a =
     \<lparr>id' = ''a'', name = ''Alpha Institute'', country = ''USA'', city = ''Boston'',
      tuitionFee = 18000, ranking = Some 5, establishedYear = 1861, acceptanceRate = 7,
      programs = [''Physics'', ''Computer Science''], researchOutput = VeryHigh,
      scholarshipAvailable = True, campusType = Urban, employmentRate = 94,
      description = ''A private research university''\<rparr>"

definition uni_b :: university where
  "uni_b =
     \<lparr>id' = ''b'', name = ''Beta College'', country = ''UK'', city = ''Leeds'',
      tuitionFee = 18000, ranking = None, establishedYear = 1904, acceptanceRate = 60,
      programs = [''History''], researchOutput = Medium,
      scholarshipAvailable = False, campusType = Suburban, employmentRate = 80,
      description = ''A teaching college''\<rparr>"

definition uni_c :: university where
  "uni_c =
     \<lparr>id' = ''c'', name = ''Gamma University'', country = ''USA'', city = ''Austin'',
      tuitionFee = 30000, ranking = Some 1, establishedYear = 1883, acceptanceRate = 30,
      programs = [''Law'', ''Physics''], researchOutput = High,
      scholarshipAvailable = True, campusType = Urban, employmentRate = 90,
      description = ''A public university''\<rparr>"

definition sample_catalog :: "university list" where
  "sample_catalog = [uni_a, uni_b, uni_c]"

definition no_filters :: UniversityFilters where
  "no_filters =
     \<lparr>search = None, countries = None, cities = None, minTuition = None, maxTuition = None,
      minRanking = None, maxRanking = None, minYear = None, maxYear = None, programs = None,
      minAcceptanceRate = None, maxAcceptanceRate = None, campusTypes = None,
      scholarshipOnly = None, minEmploymentRate = None, researchOutput = None,
      page = 1, limit = 12, sortBy = None, sortOrder = Asc\<rparr>"

definition usa_only :: UniversityFilters where
  "usa_only = no_filters\<lparr>countries := Some [''USA'']\<rparr>"

definition affordable :: UniversityFilters where
  "affordable = no_filters\<lparr>maxTuition := Some 20000\<rparr>"

definition top_ten :: UniversityFilters where
  "top_ten = no_filters\<lparr>maxRanking := Some 10\<rparr>"

definition second_page :: UniversityFilters where
  "second_page = no_filters\<lparr>page := 2, limit := 2\<rparr>"

definition fractional_limit :: UniversityFilters where
  "fractional_limit = no_filters\<lparr>page := 2, limit := 3 / 2\<rparr>"

section \<open>Filtering\<close>

lemma cond_filter: "(if b then filter P xs else xs) = filter (\<lambda>u. b \<longrightarrow> P u) xs"
  by simp

lemma filterUniversities_matches: "filterUniversities catalog fs = filter (matches fs) catalog"
  unfolding filterUniversities_def
  apply (simp only: cond_filter Let_def filter_filter)
  apply (rule filter_cong[OF refl])
  apply (simp only: matches_def dimensions_def list.pred_inject active.simps satisfies.simps)
  apply (intro arg_cong2[where f="(\<and>)"])
  apply (auto simp: present_nonempty_def matches_text_def member_of_def at_least_def at_most_def list_ex_iff split: option.splits)
  done

lemma dimensions_complete: "d \<in> set dimensions"
  by (cases d) (simp_all add: dimensions_def)

lemma matches_iff: "matches fs u \<longleftrightarrow> (\<forall>d\<in>set dimensions. active d fs \<longrightarrow> satisfies d fs u)"
  by (auto simp: matches_def list_all_iff)

lemma combine_sel:
  "search (combine f g) = (if active DSearch f then search f else search g)"
  "countries (combine f g) = (if active DCountries f then countries f else countries g)"
  "cities (combine f g) = (if active DCities f then cities f else cities g)"
  "minTuition (combine f g) = (if active DMinTuition f then minTuition f else minTuition g)"
  "maxTuition (combine f g) = (if active DMaxTuition f then maxTuition f else maxTuition g)"
  "minRanking (combine f g) = (if active DMinRanking f then minRanking f else minRanking g)"
  "maxRanking (combine f g) = (if active DMaxRanking f then maxRanking f else maxRanking g)"
  "minYear (combine f g) = (if active DMinYear f then minYear f else minYear g)"
  "maxYear (combine f g) = (if active DMaxYear f then maxYear f else maxYear g)"
  "UniversityFilters.programs (combine f g) =
     (if active DPrograms f then UniversityFilters.programs f else UniversityFilters.programs g)"
  "minAcceptanceRate (combine f g) =
     (if active DMinAcceptanceRate f then minAcceptanceRate f else minAcceptanceRate g)"
  "maxAcceptanceRate (combine f g) =
     (if active DMaxAcceptanceRate f then maxAcceptanceRate f else maxAcceptanceRate g)"
  "campusTypes (combine f g) = (if active DCampusTypes f then campusTypes f else campusTypes g)"
  "scholarshipOnly (combine f g) =
     (if active DScholarshipOnly f then scholarshipOnly f else scholarshipOnly g)"
  "minEmploymentRate (combine f g) =
     (if active DMinEmploymentRate f then minEmploymentRate f else minEmploymentRate g)"
  "UniversityFilters.researchOutput (combine f g) =
     (if active DResearchOutput f then UniversityFilters.researchOutput f
      else UniversityFilters.researchOutput g)"
  by (simp_all add: combine_def)

lemma active_combine: "active d (combine f g) = (active d f \<or> active d g)"
  by (cases d; cases "active d f"; simp add: combine_sel)

lemma satisfies_combine:
  "satisfies d (combine f g) u = (if active d f then satisfies d f u else satisfies d g u)"
  by (cases d; cases "active d f"; cases "ranking u"; simp add: combine_sel)

lemma matches_combine:
  assumes "\<forall>d\<in>set dimensions. \<not> (active d f \<and> active d g)"
  shows "matches (combine f g) u \<longleftrightarrow> matches f u \<and> matches g u"
  using assms unfolding matches_iff active_combine satisfies_combine
  by (auto split: if_splits)

text \<open>
  C1: filtering is conjunctive across dimensions. A record is in the filtered result
  exactly when it is in the catalog and satisfies the predicate of every active
  dimension; and when two requests have no active dimension in common, the result of
  the request that applies the filters of both is the intersection of their results.
\<close>

theorem filter_conjunctive:
  "(u \<in> set (filterUniversities catalog fs) \<longleftrightarrow>
      u \<in> set catalog \<and> (\<forall>d\<in>set dimensions. active d fs \<longrightarrow> satisfies d fs u))
   \<and> ((\<forall>d\<in>set dimensions. \<not> (active d f \<and> active d g)) \<longrightarrow>
        set (filterUniversities catalog (combine f g)) =
          set (filterUniversities catalog f) \<inter> set (filterUniversities catalog g))"
proof (intro conjI impI)
  show "u \<in> set (filterUniversities catalog fs) \<longleftrightarrow>
      u \<in> set catalog \<and> (\<forall>d\<in>set dimensions. active d fs \<longrightarrow> satisfies d fs u)"
    by (simp add: filterUniversities_matches matches_iff)
next
  assume "\<forall>d\<in>set dimensions. \<not> (active d f \<and> active d g)"
  then have "\<And>v. matches (combine f g) v \<longleftrightarrow> matches f v \<and> matches g v"
    by (rule matches_combine)
  then show "set (filterUniversities catalog (combine f g)) =
          set (filterUniversities catalog f) \<inter> set (filterUniversities catalog g)"
    by (auto simp: filterUniversities_matches)
qed

section \<open>Sorting, slicing and the response\<close>

lemma length_insert_sorted: "length (insert_sorted c a bs) = Suc (length bs)"
  by (induction bs) simp_all

lemma set_insert_sorted: "set (insert_sorted c a bs) = insert a (set bs)"
  by (induction bs) auto

lemma length_js_sort: "length (js_sort c xs) = length xs"
  unfolding js_sort_def by (induction xs) (simp_all add: length_insert_sorted)

lemma set_js_sort: "set (js_sort c xs) = set xs"
  unfolding js_sort_def by (induction xs) (simp_all add: set_insert_sorted)

lemma length_sortUniversities: "length (sortUniversities lc us sb ord) = length us"
  by (cases sb) (simp_all add: sortUniversities_def length_js_sort)

lemma set_sortUniversities: "set (sortUniversities lc us sb ord) = set us"
  by (cases sb) (simp_all add: sortUniversities_def set_js_sort)

lemma sublist_slice: "sublist (slice xs a b) xs"
proof -
  have "sublist (take m (drop k xs)) (drop k xs)" for m k
    by (rule sublist_take)
  moreover have "sublist (drop k xs) xs" for k
    by (rule sublist_drop)
  ultimately show ?thesis
    unfolding slice_def Let_def by (blast intro: sublist_order.order.trans)
qed

lemma set_slice: "set (slice xs a b) \<subseteq> set xs"
  using sublist_slice [of xs a b] by (rule set_mono_sublist)

lemma paginateResults_total: "fst (snd (paginateResults us p l)) = length us"
  by (simp add: paginateResults_def Let_def)

lemma paginateResults_data: "fst (paginateResults us p l) = slice us ((p - 1) * l) ((p - 1) * l + l)"
  by (simp add: paginateResults_def Let_def)

lemma getUniversities_data:
  "data (getUniversities lc catalog fs) =
     fst (paginateResults (sortUniversities lc (filterUniversities catalog fs) (sortBy fs) (sortOrder fs))
       (page fs) (limit fs))"
  by (simp add: getUniversities_def Let_def split_def)

lemma getUniversities_total:
  "p_total (pagination (getUniversities lc catalog fs)) =
     length (sortUniversities lc (filterUniversities catalog fs) (sortBy fs) (sortOrder fs))"
  by (simp add: getUniversities_def Let_def split_def paginateResults_total)

lemma filter_inactive:
  assumes "\<forall>d\<in>set dimensions. \<not> active d fs"
  shows "filterUniversities catalog fs = catalog"
proof -
  have "matches fs u" for u
    using assms by (simp add: matches_iff)
  then show ?thesis
    by (simp add: filterUniversities_matches)
qed

text \<open>
  C9: when no filter dimension is active, the total of the response is the size of the
  whole catalog, whatever the sort and the page.
\<close>

theorem total_without_filters:
  assumes "\<forall>d\<in>set dimensions. \<not> active d fs"
  shows "p_total (pagination (getUniversities localeCompare catalog fs)) = length catalog"
  using assms by (simp add: getUniversities_total length_sortUniversities filter_inactive)

text \<open>
  C5: when the request gives a lower or an upper ranking bound, no record without a
  ranking is in the filtered result, nor on the returned page.
\<close>

theorem ranking_bound_excludes_unranked:
  assumes "minRanking fs \<noteq> None \<or> maxRanking fs \<noteq> None"
  shows "(\<forall>u\<in>set (filterUniversities catalog fs). ranking u \<noteq> None)
     \<and> (\<forall>u\<in>set (data (getUniversities localeCompare catalog fs)). ranking u \<noteq> None)"
proof -
  have filtered: "ranking u \<noteq> None" if "u \<in> set (filterUniversities catalog fs)" for u
  proof -
    from that have m: "matches fs u"
      by (simp add: filterUniversities_matches)
    from assms show ?thesis
    proof
      assume "minRanking fs \<noteq> None"
      then have "satisfies DMinRanking fs u"
        using m by (simp add: matches_iff dimensions_def)
      then show ?thesis by (auto split: option.splits)
    next
      assume "maxRanking fs \<noteq> None"
      then have "satisfies DMaxRanking fs u"
        using m by (simp add: matches_iff dimensions_def)
      then show ?thesis by (auto split: option.splits)
    qed
  qed
  have "set (data (getUniversities localeCompare catalog fs)) \<subseteq> set (filterUniversities catalog fs)"
    unfolding getUniversities_data paginateResults_data
    using set_slice set_sortUniversities by fastforce
  with filtered show ?thesis by blast
qed

text \<open>
  C10: the filtered result is a subsequence of the catalog, so filtering neither
  duplicates nor reorders records; and when no sort field is requested, the records of
  the returned page stand in their catalog order.
\<close>

theorem filter_preserves_catalog_order:
  "subseq (filterUniversities catalog fs) catalog
   \<and> (sortBy fs = None \<longrightarrow> subseq (data (getUniversities localeCompare catalog fs)) catalog)"
proof (intro conjI impI)
  show f: "subseq (filterUniversities catalog fs) catalog"
    by (simp add: filterUniversities_matches)
  assume "sortBy fs = None"
  then have "data (getUniversities localeCompare catalog fs) =
      slice (filterUniversities catalog fs) ((page fs - 1) * limit fs) ((page fs - 1) * limit fs + limit fs)"
    by (simp add: getUniversities_data paginateResults_data sortUniversities_def)
  then have "subseq (data (getUniversities localeCompare catalog fs)) (filterUniversities catalog fs)"
    by (simp add: sublist_slice sublist_imp_subseq)
  with f show "subseq (data (getUniversities localeCompare catalog fs)) catalog"
    by (blast intro: subseq_order.trans)
qed

section \<open>Pagination\<close>

lemma relativeIndex_of_nat: "relativeIndex n (real k) = min k n"
  by (simp add: relativeIndex_def toIntegerOrInfinity_def Let_def min_def)

lemma take_window: "take (min (a + l) n - min a n) (drop (min a n) xs) = take l (drop a xs)"
  if "n = length xs"
proof (cases "a < n")
  case True
  then have "min (a + l) n - min a n = min l (n - a)"
    by arith
  moreover have "take (min l (n - a)) (drop a xs) = take l (drop a xs)"
    using that by (simp add: min_def)
  ultimately show ?thesis
    using True by (simp add: min_def)
next
  case False
  then show ?thesis
    using that by (simp add: min_def)
qed

lemma slice_of_nat: "slice xs (real a) (real a + real l) = take l (drop a xs)"
proof -
  have "real a + real l = real (a + l)" by simp
  then show ?thesis
    unfolding slice_def Let_def
    by (simp only: relativeIndex_of_nat take_window [OF refl])
qed

lemma start_of_nat: "1 \<le> p \<Longrightarrow> (real p - 1) * real l = real ((p - 1) * l)"
  by simp

lemma paginateResults_whole_numbers:
  assumes "1 \<le> p" and "1 \<le> l"
  shows "paginateResults us (real p) (real l) =
           (take l (drop ((p - 1) * l) us), length us,
            Finite (of_int \<lceil>real (length us) / real l\<rceil>))"
proof -
  have "real l \<noteq> 0"
    using assms(2) by simp
  then show ?thesis
    unfolding paginateResults_def Let_def start_of_nat [OF assms(1)] slice_of_nat
    by (simp add: js_div_def)
qed

text \<open>
  C4, for a request whose page and limit are whole numbers, both at least one. With
  \<open>full\<close> the filtered and ordered sequence before slicing: the total is the length
  of \<open>full\<close>, the number of pages is the ceiling of total by limit, the page is the
  window of \<open>full\<close> from \<open>(page - 1) * limit\<close> of length \<open>limit\<close>, clipped to
  what \<open>full\<close> has, so it is no longer than the limit nor than what remains from the
  window's start (the difference of natural numbers, zero when the start lies past the
  end), and a page beyond the last is empty.
\<close>

theorem pagination_whole_numbers:
  assumes "page fs = real p" and "limit fs = real l" and "1 \<le> p" and "1 \<le> l"
  shows "(let full = sortUniversities localeCompare (filterUniversities catalog fs)
                       (sortBy fs) (sortOrder fs);
              response = getUniversities localeCompare catalog fs
          in p_total (pagination response) = length full
             \<and> p_totalPages (pagination response) =
                 Finite (of_int \<lceil>real (length full) / real l\<rceil>)
             \<and> data response = take l (drop ((p - 1) * l) full)
             \<and> length (data response) \<le> l
             \<and> length (data response) \<le> length full - (p - 1) * l
             \<and> (length full \<le> (p - 1) * l \<longrightarrow> data response = []))"
proof -
  let ?full = "sortUniversities localeCompare (filterUniversities catalog fs)
                 (sortBy fs) (sortOrder fs)"
  have "paginateResults ?full (page fs) (limit fs) =
      (take l (drop ((p - 1) * l) ?full), length ?full,
       Finite (of_int \<lceil>real (length ?full) / real l\<rceil>))"
    unfolding assms(1,2) by (rule paginateResults_whole_numbers [OF assms(3,4)])
  then show ?thesis
    by (simp add: getUniversities_def Let_def)
qed

text \<open>
  C4 as stated, for every request, fails: the schema admits a limit that is no whole
  number. \<open>slice\<close> truncates both ends of the window, so the valid request for
  page 2 with limit 3/2 gets the window from 3/2 to 3, the two records at the indices 1
  and 2: more records than the limit.
\<close>

theorem fractional_limit_counterexample:
  "UniversityFiltersSchema 2026 fractional_limit
   \<and> data (getUniversities (\<lambda>a b. 0) sample_catalog fractional_limit) = [uni_b, uni_c]
   \<and> \<not> real (length (data (getUniversities (\<lambda>a b. 0) sample_catalog fractional_limit)))
         \<le> limit fractional_limit"
proof -
  have "filterUniversities sample_catalog fractional_limit = sample_catalog"
    by (simp add: filterUniversities_def Let_def fractional_limit_def no_filters_def)
  then have "data (getUniversities (\<lambda>a b. 0) sample_catalog fractional_limit) = [uni_b, uni_c]"
    by (simp add: getUniversities_def Let_def sortUniversities_def paginateResults_def
        slice_def relativeIndex_def toIntegerOrInfinity_def fractional_limit_def no_filters_def
        sample_catalog_def)
  moreover have "UniversityFiltersSchema 2026 fractional_limit"
    by (simp add: UniversityFiltersSchema_def optional_def fractional_limit_def no_filters_def)
  moreover have "limit fractional_limit = 3 / 2"
    by (simp add: fractional_limit_def no_filters_def)
  ultimately show ?thesis by simp
qed

section \<open>Sorting by a numeric field\<close>

lemma insert_sorted_insort_key:
  assumes "\<And>a b. (c a b \<le> 0) = (k a \<le> k b)"
  shows "insert_sorted c a bs = insort_key k a bs"
  by (induction bs) (simp_all add: assms)

lemma js_sort_sort_key:
  assumes "\<And>a b. (c a b \<le> 0) = (k a \<le> k b)"
  shows "js_sort c xs = sort_key k xs"
  unfolding js_sort_def sort_key_def
  by (induction xs) (simp_all add: insert_sorted_insort_key [of c k, OF assms])

lemma sort_key_reverse:
  fixes k :: "'a \<Rightarrow> real"
  assumes "distinct (map k xs)"
  shows "sort_key k xs = rev (sort_key (\<lambda>x. - k x) xs)"
proof -
  let ?up = "sort_key k xs" and ?down = "sort_key (\<lambda>x. - k x) xs"
  have inj: "inj_on k (set xs)"
    using assms by (simp add: distinct_map)
  have "sorted (map (\<lambda>x. - k x) ?down)"
    by (rule sorted_sort_key)
  then have "sorted_wrt (\<lambda>x y. k y \<le> k x) ?down"
    by (simp add: sorted_wrt_map)
  then have down_sorted: "sorted (map k (rev ?down))"
    by (simp add: sorted_wrt_map sorted_wrt_rev)
  have up_sorted: "sorted (map k ?up)"
    by (rule sorted_sort_key)
  have "distinct (map k ?up)" and "distinct (map k (rev ?down))"
    using assms inj by (simp_all add: distinct_map)
  moreover have "set (map k ?up) = set (map k (rev ?down))"
    by simp
  ultimately have "map k ?up = map k (rev ?down)"
    using up_sorted down_sorted by (blast intro: sorted_distinct_set_unique)
  moreover have "inj_on k (set ?up \<union> set (rev ?down))"
    using inj by simp
  ultimately show ?thesis
    by (simp add: inj_on_map_eq_map)
qed

lemma sortValue_numeric:
  "field \<noteq> SortName \<Longrightarrow> \<exists>k. \<forall>u. sortValue field u = NumberValue (k u)"
  by (cases field) auto

text \<open>
  C8: for every numeric sort field, when the sort keys of the records (the values the
  comparator compares) are pairwise distinct, the ascending and the descending order are
  reverses of each other.
\<close>

theorem ascending_reverses_descending:
  assumes "field \<noteq> SortName" and "distinct (map (sortValue field) us)"
  shows "sortUniversities localeCompare us (Some field) Asc =
         rev (sortUniversities localeCompare us (Some field) Desc)"
proof -
  from assms(1) obtain k where k: "\<And>u. sortValue field u = NumberValue (k u)"
    using sortValue_numeric by blast
  have "map (sortValue field) us = map NumberValue (map k us)"
    by (simp add: k)
  with assms(2) have "distinct (map NumberValue (map k us))"
    by simp
  then have keys: "distinct (map k us)"
    using distinct_map [of NumberValue "map k us"] by blast
  have up: "js_sort (compareFn localeCompare field Asc) us = sort_key k us"
    by (rule js_sort_sort_key) (simp add: compareFn_def k)
  have down: "js_sort (compareFn localeCompare field Desc) us = sort_key (\<lambda>u. - k u) us"
    by (rule js_sort_sort_key) (simp add: compareFn_def k)
  show ?thesis
    by (simp add: sortUniversities_def up down sort_key_reverse [OF keys])
qed

text \<open>
  C2 at a failing input: a record ranked 5 and a record without a ranking, sorted by
  ranking. The missing ranking stands for the largest safe integer. In ascending order
  the comparator is \<open>aValue - bValue\<close> and the unranked record comes last; in
  descending order it is \<open>bValue - aValue\<close> and the unranked record comes first.
\<close>

theorem unranked_first_when_descending:
  "sortUniversities localeCompare [uni_b, uni_a] (Some SortRanking) Asc = [uni_a, uni_b]
   \<and> sortUniversities localeCompare [uni_a, uni_b] (Some SortRanking) Desc = [uni_b, uni_a]"
  by (simp add: sortUniversities_def js_sort_def compareFn_def uni_a_def uni_b_def
      MAX_SAFE_INTEGER_def)

section \<open>The comparison route\<close>

lemma split_no_sep: "sep \<notin> set a \<Longrightarrow> split sep a = [a]"
  by (induction a) auto

lemma split_append: "sep \<notin> set a \<Longrightarrow> split sep (a @ sep # b) = a # split sep b"
  by (induction a) auto

lemma supplied_ids_pair:
  assumes "a \<noteq> []" "b \<noteq> []" "CHR '','' \<notin> set a" "CHR '','' \<notin> set b"
  shows "supplied_ids (Some (a @ CHR '','' # b)) = [a, b]"
  using assms by (simp add: supplied_ids_def split_append split_no_sep)

lemma compare_GET_invalid:
  assumes "length (supplied_ids idsParam) \<noteq> 2"
  shows "\<exists>m. compare_GET catalog idsParam = Inl (InvalidArgument m)"
proof (cases "idsParam = None \<or> idsParam = Some []")
  case True
  then show ?thesis by (simp add: compare_GET_def)
next
  case False
  then obtain s where "idsParam = Some s" by auto
  with False assms show ?thesis
    by (simp add: compare_GET_def supplied_ids_def)
qed

lemma compare_GET_two:
  assumes "length (supplied_ids idsParam) = 2"
  shows "compare_GET catalog idsParam =
     (case getUniversitiesByIds catalog (supplied_ids idsParam) of
        [uni1, uni2] \<Rightarrow> Inr (comparison_of uni1 uni2)
      | _ \<Rightarrow> Inl (NotFound ''One or both universities not found''))"
proof -
  from assms obtain s where s: "idsParam = Some s" "s \<noteq> []"
    by (cases idsParam; cases "the idsParam") (auto simp: supplied_ids_def)
  let ?unis = "getUniversitiesByIds catalog (supplied_ids idsParam)"
  have "length ?unis \<noteq> 2 \<Longrightarrow>
      (case ?unis of [uni1, uni2] \<Rightarrow> Inr (comparison_of uni1 uni2)
       | _ \<Rightarrow> Inl (NotFound ''One or both universities not found'')) =
      Inl (NotFound ''One or both universities not found'')"
    by (auto split: list.splits)
  with s assms show ?thesis
    by (simp add: compare_GET_def supplied_ids_def Let_def)
qed

lemma length_getUniversitiesByIds:
  assumes "distinct (map id' catalog)"
  shows "length (getUniversitiesByIds catalog ids) = card (set ids \<inter> id' ` set catalog)"
proof -
  have "length (getUniversitiesByIds catalog ids) =
      length (filter (\<lambda>i. i \<in> set ids) (map id' catalog))"
    by (simp add: getUniversitiesByIds_def filter_map comp_def)
  also have "\<dots> = card ({i. i \<in> set ids} \<inter> set (map id' catalog))"
    using assms by (rule distinct_length_filter)
  finally show ?thesis by simp
qed

lemma two_found_iff:
  assumes "distinct (map id' catalog)" and "length ids = 2"
  shows "length (getUniversitiesByIds catalog ids) = 2
     \<longleftrightarrow> distinct ids \<and> set ids \<subseteq> id' ` set catalog"
proof -
  from assms(2) obtain a b where ids: "ids = [a, b]"
    by (auto simp: length_Suc_conv numeral_2_eq_2)
  have "card ({a, b} \<inter> S) = 2 \<longleftrightarrow> a \<noteq> b \<and> a \<in> S \<and> b \<in> S" for S :: "string set"
    by (cases "a \<in> S"; cases "b \<in> S"; cases "a = b") (simp_all add: Int_insert_left)
  then show ?thesis
    using assms(1) by (simp add: length_getUniversitiesByIds ids)
qed

lemma two_found_cases:
  assumes "distinct (map id' catalog)" and "length ids = 2"
  shows "if distinct ids \<and> set ids \<subseteq> id' ` set catalog
         then \<exists>uni1 uni2. getUniversitiesByIds catalog ids = [uni1, uni2]
         else length (getUniversitiesByIds catalog ids) \<noteq> 2"
  using two_found_iff [OF assms]
  by (auto simp: length_Suc_conv numeral_2_eq_2)

text \<open>
  C3, as the code has it, for a catalog whose identifiers are unique: the comparison
  fails with InvalidArgument when the caller does not supply exactly two identifiers;
  it fails with NotFound when two identifiers are supplied and one of them matches no
  record or both are the same identifier; it succeeds when the two identifiers are
  distinct and both match.
\<close>

theorem compare_errors:
  assumes "distinct (map id' catalog)"
  shows "(length (supplied_ids idsParam) \<noteq> 2 \<longrightarrow>
            (\<exists>m. compare_GET catalog idsParam = Inl (InvalidArgument m)))
       \<and> (length (supplied_ids idsParam) = 2
            \<and> (\<not> set (supplied_ids idsParam) \<subseteq> id' ` set catalog
                \<or> \<not> distinct (supplied_ids idsParam)) \<longrightarrow>
            (\<exists>m. compare_GET catalog idsParam = Inl (NotFound m)))
       \<and> (length (supplied_ids idsParam) = 2
            \<and> set (supplied_ids idsParam) \<subseteq> id' ` set catalog
            \<and> distinct (supplied_ids idsParam) \<longrightarrow>
            (\<exists>r. compare_GET catalog idsParam = Inr r))"
proof (intro conjI impI)
  assume "length (supplied_ids idsParam) \<noteq> 2"
  then show "\<exists>m. compare_GET catalog idsParam = Inl (InvalidArgument m)"
    by (rule compare_GET_invalid)
next
  assume a: "length (supplied_ids idsParam) = 2
      \<and> (\<not> set (supplied_ids idsParam) \<subseteq> id' ` set catalog \<or> \<not> distinct (supplied_ids idsParam))"
  then have "length (getUniversitiesByIds catalog (supplied_ids idsParam)) \<noteq> 2"
    using two_found_iff [OF assms, of "supplied_ids idsParam"] by blast
  then have "compare_GET catalog idsParam = Inl (NotFound ''One or both universities not found'')"
    using a by (auto simp: compare_GET_two split: list.splits)
  then show "\<exists>m. compare_GET catalog idsParam = Inl (NotFound m)"
    by blast
next
  assume a: "length (supplied_ids idsParam) = 2
      \<and> set (supplied_ids idsParam) \<subseteq> id' ` set catalog \<and> distinct (supplied_ids idsParam)"
  then obtain uni1 uni2 where "getUniversitiesByIds catalog (supplied_ids idsParam) = [uni1, uni2]"
    using two_found_cases [OF assms, of "supplied_ids idsParam"] by auto
  then show "\<exists>r. compare_GET catalog idsParam = Inr r"
    using a by (simp add: compare_GET_two)
qed

lemma comparison_of_metrics:
  "tuitionDifference (comparison (comparison_of a b)) = \<bar>tuitionFee a - tuitionFee b\<bar>"
  "acceptanceRateDifference (comparison (comparison_of a b)) = \<bar>acceptanceRate a - acceptanceRate b\<bar>"
  "employmentRateDifference (comparison (comparison_of a b)) = \<bar>employmentRate a - employmentRate b\<bar>"
  "universities (comparison_of a b) = (a, b)"
  by (simp_all add: comparison_of_def)

lemma comparison_of_ranking:
  assumes "ranking a \<noteq> Some 0" and "ranking b \<noteq> Some 0"
  shows "rankingDifference (comparison (comparison_of a b)) =
     (case (ranking a, ranking b) of (Some x, Some y) \<Rightarrow> Some \<bar>x - y\<bar> | _ \<Rightarrow> None)"
  using assms by (auto simp: comparison_of_def truthy_number_def split: option.splits)

lemma compare_GET_success:
  assumes "compare_GET catalog idsParam = Inr r"
  shows "\<exists>uni1 uni2. r = comparison_of uni1 uni2
     \<and> getUniversitiesByIds catalog (supplied_ids idsParam) = [uni1, uni2]"
proof -
  have two: "length (supplied_ids idsParam) = 2"
    using assms compare_GET_invalid [of idsParam catalog] by fastforce
  from assms show ?thesis
    unfolding compare_GET_two [OF two] by (auto split: list.splits)
qed

text \<open>
  C6: on a successful comparison over a catalog whose rankings, where present, are not
  zero (the data model has them positive), the two returned records are records of the
  catalog with supplied identifiers, the tuition, acceptance rate and employment rate
  differences are the absolute differences of the two records' values, the ranking
  difference is the absolute difference when both records have a ranking and is absent
  otherwise, and every difference present is non-negative.
\<close>

theorem comparison_metrics:
  assumes "compare_GET catalog idsParam = Inr r"
    and "\<forall>u\<in>set catalog. ranking u \<noteq> Some 0"
  shows "case universities r of
           (uniA, uniB) \<Rightarrow>
             uniA \<in> set catalog \<and> uniB \<in> set catalog
             \<and> id' uniA \<in> set (supplied_ids idsParam) \<and> id' uniB \<in> set (supplied_ids idsParam)
             \<and> tuitionDifference (comparison r) = \<bar>tuitionFee uniA - tuitionFee uniB\<bar>
             \<and> acceptanceRateDifference (comparison r) = \<bar>acceptanceRate uniA - acceptanceRate uniB\<bar>
             \<and> employmentRateDifference (comparison r) = \<bar>employmentRate uniA - employmentRate uniB\<bar>
             \<and> rankingDifference (comparison r) =
                 (case (ranking uniA, ranking uniB) of
                    (Some x, Some y) \<Rightarrow> Some \<bar>x - y\<bar>
                  | _ \<Rightarrow> None)
             \<and> 0 \<le> tuitionDifference (comparison r)
             \<and> 0 \<le> acceptanceRateDifference (comparison r)
             \<and> 0 \<le> employmentRateDifference (comparison r)
             \<and> (\<forall>d. rankingDifference (comparison r) = Some d \<longrightarrow> 0 \<le> d)"
proof -
  from assms(1) obtain uni1 uni2 where r: "r = comparison_of uni1 uni2"
    and found: "getUniversitiesByIds catalog (supplied_ids idsParam) = [uni1, uni2]"
    using compare_GET_success by blast
  have "set [uni1, uni2] = {u \<in> set catalog. id' u \<in> set (supplied_ids idsParam)}"
    unfolding found [symmetric] getUniversitiesByIds_def by simp
  then have mem: "uni1 \<in> set catalog" "uni2 \<in> set catalog"
    "id' uni1 \<in> set (supplied_ids idsParam)" "id' uni2 \<in> set (supplied_ids idsParam)"
    by auto
  with assms(2) have nz: "ranking uni1 \<noteq> Some 0" "ranking uni2 \<noteq> Some 0"
    by auto
  have rk: "rankingDifference (comparison r) =
      (case (ranking uni1, ranking uni2) of (Some x, Some y) \<Rightarrow> Some \<bar>x - y\<bar> | _ \<Rightarrow> None)"
    unfolding r by (rule comparison_of_ranking [OF nz])
  then have "\<forall>d. rankingDifference (comparison r) = Some d \<longrightarrow> 0 \<le> d"
    by (auto split: option.splits)
  with mem rk show ?thesis
    by (simp add: r comparison_of_metrics)
qed

lemma getUniversitiesByIds_swap:
  "getUniversitiesByIds catalog [b, a] = getUniversitiesByIds catalog [a, b]"
  by (simp add: getUniversitiesByIds_def insert_commute)

text \<open>
  C7: for two distinct identifiers of the catalog (non-empty and free of commas, as the
  \<open>ids\<close> parameter can carry them), the comparison in either input order succeeds,
  the four difference values of the two responses are the same, and the returned pairs
  agree up to the order of the two records. (The route returns the pair in catalog
  order, so the two pairs are in fact equal.)
\<close>

theorem comparison_symmetric:
  assumes "distinct (map id' catalog)" and "a \<noteq> b"
    and "a \<in> id' ` set catalog" and "b \<in> id' ` set catalog"
    and "a \<noteq> []" and "b \<noteq> []" and "CHR '','' \<notin> set a" and "CHR '','' \<notin> set b"
  shows "\<exists>r1 r2. compare_GET catalog (Some (a @ '','' @ b)) = Inr r1
           \<and> compare_GET catalog (Some (b @ '','' @ a)) = Inr r2
           \<and> comparison r1 = comparison r2
           \<and> (universities r1 = universities r2
               \<or> universities r1 = prod.swap (universities r2))"
proof -
  have ab: "supplied_ids (Some (a @ CHR '','' # b)) = [a, b]"
    by (rule supplied_ids_pair [OF assms(5,6,7,8)])
  have ba: "supplied_ids (Some (b @ CHR '','' # a)) = [b, a]"
    by (rule supplied_ids_pair [OF assms(6,5,8,7)])
  have "length [a, b] = 2" by simp
  from two_found_cases [OF assms(1) this] assms(2-4)
  obtain uni1 uni2 where found: "getUniversitiesByIds catalog [a, b] = [uni1, uni2]"
    by auto
  have "compare_GET catalog (Some (a @ '','' @ b)) = Inr (comparison_of uni1 uni2)"
    using compare_GET_two [of "Some (a @ '','' @ b)" catalog] by (simp add: ab found)
  moreover have "compare_GET catalog (Some (b @ '','' @ a)) = Inr (comparison_of uni1 uni2)"
    using compare_GET_two [of "Some (b @ '','' @ a)" catalog]
    by (simp add: ba getUniversitiesByIds_swap found)
  ultimately show ?thesis by simp
qed

text \<open>
  C3 as stated fails: one identifier repeated twice is two supplied identifiers, so it
  passes the count check; the catalog holds one record for them, and the response is
  NotFound.
\<close>

theorem repeated_id_not_found:
  "supplied_ids (Some ''a,a'') = [''a'', ''a'']
   \<and> compare_GET sample_catalog (Some ''a,a'') =
       Inl (NotFound ''One or both universities not found'')
   \<and> \<not> (\<exists>m. compare_GET sample_catalog (Some ''a,a'') = Inl (InvalidArgument m))"
  by (simp add: supplied_ids_def compare_GET_def getUniversitiesByIds_def Let_def
      sample_catalog_def uni_a_def uni_b_def uni_c_def)

section \<open>The theorems at sample inputs\<close>

theorem filter_conjunctive_witness:
  "uni_a \<in> set (filterUniversities sample_catalog usa_only)
   \<and> set (filterUniversities sample_catalog (combine usa_only affordable)) =
       set (filterUniversities sample_catalog usa_only)
         \<inter> set (filterUniversities sample_catalog affordable)"
proof -
  have disjoint: "\<forall>d\<in>set dimensions. \<not> (active d usa_only \<and> active d affordable)"
    by (simp add: dimensions_def usa_only_def affordable_def no_filters_def present_nonempty_def)
  have sat: "uni_a \<in> set sample_catalog
      \<and> (\<forall>d\<in>set dimensions. active d usa_only \<longrightarrow> satisfies d usa_only uni_a)"
    by (simp add: dimensions_def usa_only_def no_filters_def present_nonempty_def member_of_def
        sample_catalog_def uni_a_def)
  from filter_conjunctive [of uni_a sample_catalog usa_only usa_only affordable] disjoint sat
  show ?thesis by blast
qed

theorem total_without_filters_witness:
  "p_total (pagination (getUniversities (\<lambda>a b. 0) sample_catalog no_filters)) = 3"
proof -
  have inactive: "\<forall>d\<in>set dimensions. \<not> active d no_filters"
    by (simp add: dimensions_def no_filters_def present_nonempty_def)
  from total_without_filters [OF inactive, of "\<lambda>a b. 0" sample_catalog]
  show ?thesis by (simp add: sample_catalog_def)
qed

theorem ranking_bound_excludes_unranked_witness:
  "maxRanking top_ten = Some 10 \<and> ranking uni_b = None
   \<and> uni_b \<in> set sample_catalog
   \<and> uni_b \<notin> set (filterUniversities sample_catalog top_ten)"
proof -
  have bound: "minRanking top_ten \<noteq> None \<or> maxRanking top_ten \<noteq> None"
    by (simp add: top_ten_def)
  from ranking_bound_excludes_unranked [OF bound, of sample_catalog "\<lambda>a b. 0"]
  have "\<forall>u\<in>set (filterUniversities sample_catalog top_ten). ranking u \<noteq> None"
    by blast
  moreover have "ranking uni_b = None"
    by (simp add: uni_b_def)
  ultimately have "uni_b \<notin> set (filterUniversities sample_catalog top_ten)"
    by blast
  then show ?thesis
    by (simp add: top_ten_def uni_b_def sample_catalog_def)
qed

theorem filter_preserves_catalog_order_witness:
  "subseq (filterUniversities sample_catalog usa_only) sample_catalog
   \<and> subseq (data (getUniversities (\<lambda>a b. 0) sample_catalog usa_only)) sample_catalog"
proof -
  have unsorted: "sortBy usa_only = None"
    by (simp add: usa_only_def no_filters_def)
  from filter_preserves_catalog_order [of sample_catalog usa_only "\<lambda>a b. 0"] unsorted
  show ?thesis by blast
qed

theorem pagination_whole_numbers_witness:
  "p_total (pagination (getUniversities (\<lambda>a b. 0) sample_catalog second_page)) = 3
   \<and> p_totalPages (pagination (getUniversities (\<lambda>a b. 0) sample_catalog second_page)) = Finite 2
   \<and> data (getUniversities (\<lambda>a b. 0) sample_catalog second_page) = [uni_c]"
proof -
  have request: "page second_page = real 2" "limit second_page = real 2"
    by (simp_all add: second_page_def no_filters_def)
  have "filterUniversities sample_catalog second_page = sample_catalog"
    by (simp add: filterUniversities_def Let_def second_page_def no_filters_def)
  moreover have "sortBy second_page = None"
    by (simp add: second_page_def no_filters_def)
  moreover have "(1::nat) \<le> 2"
    by simp
  note pagination_whole_numbers [OF request this this, of "\<lambda>a b. 0" sample_catalog]
  ultimately show ?thesis
    by (simp add: Let_def sortUniversities_def sample_catalog_def)
qed

theorem compare_errors_witness:
  "(\<exists>m. compare_GET sample_catalog (Some ''a'') = Inl (InvalidArgument m))
   \<and> (\<exists>m. compare_GET sample_catalog (Some ''a,zz'') = Inl (NotFound m))
   \<and> (\<exists>m. compare_GET sample_catalog (Some ''a,a'') = Inl (NotFound m))
   \<and> (\<exists>r. compare_GET sample_catalog (Some ''a,c'') = Inr r)"
proof -
  have ids: "distinct (map id' sample_catalog)"
    by (simp add: sample_catalog_def uni_a_def uni_b_def uni_c_def)
  have present: "id' ` set sample_catalog = {''a'', ''b'', ''c''}"
    by (simp add: sample_catalog_def uni_a_def uni_b_def uni_c_def)
  have "supplied_ids (Some ''a'') = [''a'']" "supplied_ids (Some ''a,zz'') = [''a'', ''zz'']"
    "supplied_ids (Some ''a,a'') = [''a'', ''a'']" "supplied_ids (Some ''a,c'') = [''a'', ''c'']"
    by (simp_all add: supplied_ids_def)
  with compare_errors [OF ids, of "Some ''a''"] compare_errors [OF ids, of "Some ''a,zz''"]
    compare_errors [OF ids, of "Some ''a,a''"] compare_errors [OF ids, of "Some ''a,c''"] present
  show ?thesis by simp
qed

theorem comparison_metrics_witness:
  "compare_GET sample_catalog (Some ''a,c'') = Inr (comparison_of uni_a uni_c)
   \<and> tuitionDifference (comparison (comparison_of uni_a uni_c)) = 12000
   \<and> rankingDifference (comparison (comparison_of uni_a uni_c)) = Some 4
   \<and> acceptanceRateDifference (comparison (comparison_of uni_a uni_c)) = 23
   \<and> employmentRateDifference (comparison (comparison_of uni_a uni_c)) = 4"
proof -
  have ok: "compare_GET sample_catalog (Some ''a,c'') = Inr (comparison_of uni_a uni_c)"
    by (simp add: compare_GET_def getUniversitiesByIds_def Let_def sample_catalog_def
        uni_a_def uni_b_def uni_c_def)
  have ranked: "\<forall>u\<in>set sample_catalog. ranking u \<noteq> Some 0"
    by (simp add: sample_catalog_def uni_a_def uni_b_def uni_c_def)
  from comparison_metrics [OF ok ranked] ok show ?thesis
    by (simp add: comparison_of_metrics uni_a_def uni_c_def)
qed

theorem comparison_symmetric_witness:
  "\<exists>r1 r2. compare_GET sample_catalog (Some ''c,a'') = Inr r1
     \<and> compare_GET sample_catalog (Some ''a,c'') = Inr r2
     \<and> comparison r1 = comparison r2
     \<and> (universities r1 = universities r2 \<or> universities r1 = prod.swap (universities r2))"
  using comparison_symmetric [of sample_catalog "''c''" "''a''"]
  by (simp add: sample_catalog_def uni_a_def uni_b_def uni_c_def)

theorem ascending_reverses_descending_witness:
  "sortUniversities (\<lambda>a b. 0) sample_catalog (Some SortAcceptanceRate) Asc =
     rev (sortUniversities (\<lambda>a b. 0) sample_catalog (Some SortAcceptanceRate) Desc)
   \<and> sortUniversities (\<lambda>a b. 0) sample_catalog (Some SortAcceptanceRate) Asc =
       [uni_a, uni_c, uni_b]"
proof -
  have numeric: "SortAcceptanceRate \<noteq> SortName"
    by simp
  have keys: "distinct (map (sortValue SortAcceptanceRate) sample_catalog)"
    by (simp add: sample_catalog_def uni_a_def uni_b_def uni_c_def)
  have "sortUniversities (\<lambda>a b. 0) sample_catalog (Some SortAcceptanceRate) Desc =
      [uni_b, uni_c, uni_a]"
    by (simp add: sortUniversities_def js_sort_def compareFn_def sample_catalog_def
        uni_a_def uni_b_def uni_c_def)
  with ascending_reverses_descending [OF numeric keys, of "\<lambda>a b. 0"]
  show ?thesis by simp
qed

end
